theory Spec2Isabelle
  imports Complex_Main
begin

section \<open>Elevatr: the prediction workflow of the React front end\<close>

text \<open>
  The front end consists of the \<^verbatim>\<open>App\<close> component (the workflow controller:
  \<^verbatim>\<open>handlePredict\<close>, \<^verbatim>\<open>handleReset\<close> and the conditional render of the results
  column), the \<^verbatim>\<open>StudentForm\<close> component (the validator \<^verbatim>\<open>validateForm\<close> and
  \<^verbatim>\<open>handleSubmit\<close>) and the view components \<^verbatim>\<open>ResultCard\<close>, \<^verbatim>\<open>RiskBadge\<close>,
  \<^verbatim>\<open>RecommendationList\<close> and \<^verbatim>\<open>FeatureChart\<close> with their lookup tables.
  The repository holds two versions of \<^verbatim>\<open>App\<close>. The second one adds
  \<^verbatim>\<open>handleReset\<close> and the loading skeleton, and in its \<^verbatim>\<open>handlePredict\<close> the
  \<^verbatim>\<open>try\<close> block goes on after \<^verbatim>\<open>setPrediction(result)\<close> to read
  \<^verbatim>\<open>result.predicted_grade\<close>; it is the one embedded here. Styling, animation,
  scrolling, confetti and sharing change no state of the workflow and are left out.
\<close>

subsection \<open>JavaScript values\<close>

text \<open>
  A form field holds a JavaScript number: the finite constants of the defaults and the
  samples, or what \<^verbatim>\<open>parseInt\<close> / \<^verbatim>\<open>parseFloat\<close> make of an input's value, which is
  \<^verbatim>\<open>NaN\<close> for an emptied number input. The comparisons \<^verbatim>\<open><\<close> and \<^verbatim>\<open>>\<close> are false
  whenever an operand is \<^verbatim>\<open>NaN\<close>.
\<close>

datatype number = NaN | Num real

fun js_lt :: "number \<Rightarrow> number \<Rightarrow> bool" where
  "js_lt (Num a) (Num b) = (a < b)"
| "js_lt _ _ = False"

fun js_gt :: "number \<Rightarrow> number \<Rightarrow> bool" where
  "js_gt (Num a) (Num b) = (a > b)"
| "js_gt _ _ = False"

text \<open>
  The result of reading a property \<^verbatim>\<open>obj[key]\<close> of an object literal: the value of
  an own property, a member inherited from \<^verbatim>\<open>Object.prototype\<close> (named by its key),
  or \<^verbatim>\<open>undefined\<close>.
\<close>

datatype 'a jsval = Undefined | Builtin string | Val 'a

text \<open>The property names every object literal inherits from \<^verbatim>\<open>Object.prototype\<close>.\<close>

definition Object_prototype :: "string list" where
  "Object_prototype =
    [''constructor'', ''hasOwnProperty'', ''isPrototypeOf'', ''propertyIsEnumerable'',
     ''toLocaleString'', ''toString'', ''valueOf'', ''__proto__'',
     ''__defineGetter__'', ''__defineSetter__'', ''__lookupGetter__'', ''__lookupSetter__'']"

text \<open>
  \<^verbatim>\<open>obj[key]\<close> for an object literal with the own properties \<open>obj\<close>: own properties
  first, then the prototype chain.
\<close>

definition get_property :: "(string \<times> 'a) list \<Rightarrow> string \<Rightarrow> 'a jsval" where
  "get_property obj key =
    (case map_of obj key of
       Some v \<Rightarrow> Val v
     | None \<Rightarrow> if key \<in> set Object_prototype then Builtin key else Undefined)"

text \<open>
  Truthiness, given the truthiness of the own values: \<^verbatim>\<open>undefined\<close> is falsy, the
  inherited members (functions, and the prototype object behind \<^verbatim>\<open>__proto__\<close>) are
  truthy. \<^verbatim>\<open>a || b\<close> is \<open>a\<close> when \<open>a\<close> is truthy and \<open>b\<close> otherwise.
\<close>

fun truthy :: "('a \<Rightarrow> bool) \<Rightarrow> 'a jsval \<Rightarrow> bool" where
  "truthy t Undefined = False"
| "truthy t (Builtin k) = True"
| "truthy t (Val v) = t v"

definition js_or :: "('a \<Rightarrow> bool) \<Rightarrow> 'a jsval \<Rightarrow> 'a jsval \<Rightarrow> 'a jsval" where
  "js_or t a b = (if truthy t a then a else b)"

definition truthy_string :: "string \<Rightarrow> bool" where
  "truthy_string s = (s \<noteq> [])"

definition truthy_number :: "nat \<Rightarrow> bool" where
  "truthy_number n = (n \<noteq> 0)"

definition truthy_object :: "'a \<Rightarrow> bool" where
  "truthy_object x = True"

text \<open>\<^verbatim>\<open>a || b\<close> on two strings.\<close>

definition or_string :: "string \<Rightarrow> string \<Rightarrow> string" where
  "or_string a b = (if a = [] then b else a)"

text \<open>A field of a JSON object: missing, \<^verbatim>\<open>null\<close>, or holding a value.\<close>

datatype 'a json_field = Absent | Null | Present 'a

text \<open>
  What \<^verbatim>\<open>response.json()\<close> resolves with is any JSON value. \<^verbatim>\<open>null\<close> is \<open>None\<close>
  of the option type; the other values are a boolean, a number, a string, an array or
  an object, of which \<open>'a\<close> keeps the properties the code reads. Of these, \<^verbatim>\<open>false\<close>,
  \<^verbatim>\<open>0\<close> and the empty string are falsy.
\<close>

datatype 'a json_value =
  JBool bool
| JNumber real
| JString string
| JArray "'a json_value option list"
| JObject 'a

fun truthy_value :: "'a json_value \<Rightarrow> bool" where
  "truthy_value (JBool b) = b"
| "truthy_value (JNumber x) = (x \<noteq> 0)"
| "truthy_value (JString s) = (s \<noteq> [])"
| "truthy_value (JArray xs) = True"
| "truthy_value (JObject obj) = True"

text \<open>
  Reading a property of \<^verbatim>\<open>null\<close> throws a \<^verbatim>\<open>TypeError\<close>. Its message is given in
  the wording of V8 (Chrome, Edge); other engines word it differently, and none leaves
  it empty.
\<close>

definition TypeError_null :: "string \<Rightarrow> string" where
  "TypeError_null property =
    ''Cannot read properties of null (reading '' @ [CHR 0x27] @ property @ [CHR 0x27] @ '')''"

text \<open>
  \<^verbatim>\<open>errorData.error\<close> on a value that is not \<^verbatim>\<open>null\<close>: an object gives its property,
  the other values have none. \<^verbatim>\<open>x || d\<close> for such a property and a string \<open>d\<close>.
\<close>

fun error_property :: "string json_field json_value \<Rightarrow> string json_field" where
  "error_property (JObject e) = e"
| "error_property _ = Absent"

fun or_field :: "string json_field \<Rightarrow> string \<Rightarrow> string" where
  "or_field Absent d = d"
| "or_field Null d = d"
| "or_field (Present e) d = or_string e d"

subsection \<open>Data model\<close>

record profile =
  age :: number
  gender :: string
  study_hours_weekly :: number
  attendance_percent :: number
  previous_gpa :: number
  assignments_completed :: number
  participation_score :: number
  midterm_score :: number
  hours_on_platform :: number

text \<open>
  The object in the body of a successful response, with the fields \<^verbatim>\<open>App\<close> reads
  from it and the types of the wire contract.
\<close>

record prediction_result =
  predicted_grade :: string
  confidence :: real
  risk_level :: string
  risk_score :: real
  recommendations :: "string list json_field"
  feature_impacts :: "(string \<times> string) list json_field"

text \<open>
  The state of \<^verbatim>\<open>App\<close> (\<open>prediction\<close>, \<open>loading\<close>, \<open>error\<close>) and of
  \<^verbatim>\<open>StudentForm\<close> (\<open>formData\<close>), with two observers of the network: the bodies of
  the requests \<^verbatim>\<open>fetch\<close> has posted, and the number of requests not yet settled.
\<close>

record state =
  prediction :: "prediction_result json_value option"
  loading :: bool
  error :: "string option"
  formData :: profile
  fetches :: "profile list"
  pending :: nat

definition SAMPLE_STUDENTS :: "(string \<times> profile) list" where
  "SAMPLE_STUDENTS =
    [(''High Performer'',
      \<lparr>age = Num 21, gender = ''F'', study_hours_weekly = Num 32, attendance_percent = Num 95,
       previous_gpa = Num (92 / 10), assignments_completed = Num 98, participation_score = Num 90,
       midterm_score = Num 92, hours_on_platform = Num 150\<rparr>),
     (''Average Student'',
      \<lparr>age = Num 20, gender = ''M'', study_hours_weekly = Num 18, attendance_percent = Num 78,
       previous_gpa = Num (72 / 10), assignments_completed = Num 75, participation_score = Num 65,
       midterm_score = Num 68, hours_on_platform = Num 85\<rparr>),
     (''At-Risk Student'',
      \<lparr>age = Num 19, gender = ''F'', study_hours_weekly = Num 8, attendance_percent = Num 55,
       previous_gpa = Num (58 / 10), assignments_completed = Num 45, participation_score = Num 35,
       midterm_score = Num 42, hours_on_platform = Num 25\<rparr>)]"

text \<open>The initial values of the \<^verbatim>\<open>useState\<close> hooks.\<close>

definition initial_formData :: profile where
  "initial_formData =
    \<lparr>age = Num 20, gender = ''M'', study_hours_weekly = Num 20, attendance_percent = Num 80,
     previous_gpa = Num (75 / 10), assignments_completed = Num 80, participation_score = Num 70,
     midterm_score = Num 75, hours_on_platform = Num 100\<rparr>"

definition initial :: state where
  "initial =
    \<lparr>prediction = None, loading = False, error = None, formData = initial_formData,
     fetches = [], pending = 0\<rparr>"

subsection \<open>StudentForm: validation and submission\<close>

definition validateForm :: "profile \<Rightarrow> string option" where
  "validateForm fd =
    (if js_lt (age fd) (Num 18) \<or> js_gt (age fd) (Num 25) then
       Some ''Age must be between 18-25''
     else if js_lt (study_hours_weekly fd) (Num 5) \<or> js_gt (study_hours_weekly fd) (Num 40) then
       Some ''Study hours must be between 5-40''
     else if js_lt (previous_gpa fd) (Num 5) \<or> js_gt (previous_gpa fd) (Num 10) then
       Some ''Previous GPA must be between 5.0-10.0''
     else if js_lt (hours_on_platform fd) (Num 10) \<or> js_gt (hours_on_platform fd) (Num 200) then
       Some ''Platform hours must be between 10-200''
     else None)"

text \<open>
  The validator in the words of the specification, for comparison: a rule holds when the
  field lies in its closed range, and the message of the first rule that fails is
  returned.
\<close>

fun in_range :: "real \<Rightarrow> real \<Rightarrow> number \<Rightarrow> bool" where
  "in_range lo hi (Num x) = (lo \<le> x \<and> x \<le> hi)"
| "in_range lo hi NaN = False"

definition spec_validate :: "profile \<Rightarrow> string option" where
  "spec_validate p =
    (if \<not> in_range 18 25 (age p) then Some ''Age must be between 18-25''
     else if \<not> in_range 5 40 (study_hours_weekly p) then Some ''Study hours must be between 5-40''
     else if \<not> in_range 5 10 (previous_gpa p) then Some ''Previous GPA must be between 5.0-10.0''
     else if \<not> in_range 10 200 (hours_on_platform p) then
       Some ''Platform hours must be between 10-200''
     else None)"

text \<open>
  The props \<^verbatim>\<open>onSubmit\<close> and \<^verbatim>\<open>onError\<close> are callbacks on the state;
  \<^verbatim>\<open>if (onError) onError(e)\<close> calls the second one only when it was passed.
\<close>

definition call_onError ::
  "(string option \<Rightarrow> state \<Rightarrow> state) option \<Rightarrow> string option \<Rightarrow> state \<Rightarrow> state" where
  "call_onError onError e s = (case onError of None \<Rightarrow> s | Some f \<Rightarrow> f e s)"

definition handleSubmit ::
  "(profile \<Rightarrow> state \<Rightarrow> state) \<Rightarrow> (string option \<Rightarrow> state \<Rightarrow> state) option \<Rightarrow> state \<Rightarrow> state" where
  "handleSubmit onSubmit onError s =
    (case validateForm (formData s) of
       Some validationError \<Rightarrow>
         if validationError \<noteq> [] then call_onError onError (Some validationError) s
         else onSubmit (formData s) s
     | None \<Rightarrow> onSubmit (formData s) s)"

text \<open>The nine inputs of the form, each with the value its \<^verbatim>\<open>onChange\<close> passes on.\<close>

datatype input =
  AgeInput number
| GenderInput string
| StudyHoursInput number
| AttendanceInput number
| PreviousGpaInput number
| AssignmentsInput number
| ParticipationInput number
| MidtermInput number
| PlatformHoursInput number

fun set_field :: "input \<Rightarrow> profile \<Rightarrow> profile" where
  "set_field (AgeInput v) fd = fd\<lparr>age := v\<rparr>"
| "set_field (GenderInput v) fd = fd\<lparr>gender := v\<rparr>"
| "set_field (StudyHoursInput v) fd = fd\<lparr>study_hours_weekly := v\<rparr>"
| "set_field (AttendanceInput v) fd = fd\<lparr>attendance_percent := v\<rparr>"
| "set_field (PreviousGpaInput v) fd = fd\<lparr>previous_gpa := v\<rparr>"
| "set_field (AssignmentsInput v) fd = fd\<lparr>assignments_completed := v\<rparr>"
| "set_field (ParticipationInput v) fd = fd\<lparr>participation_score := v\<rparr>"
| "set_field (MidtermInput v) fd = fd\<lparr>midterm_score := v\<rparr>"
| "set_field (PlatformHoursInput v) fd = fd\<lparr>hours_on_platform := v\<rparr>"

definition handleInputChange ::
  "(string option \<Rightarrow> state \<Rightarrow> state) option \<Rightarrow> input \<Rightarrow> state \<Rightarrow> state" where
  "handleInputChange onError i s =
    call_onError onError None (s\<lparr>formData := set_field i (formData s)\<rparr>)"

definition loadSampleStudent ::
  "(string option \<Rightarrow> state \<Rightarrow> state) option \<Rightarrow> string \<times> profile \<Rightarrow> state \<Rightarrow> state" where
  "loadSampleStudent onError sample s =
    call_onError onError None (s\<lparr>formData := snd sample\<rparr>)"

subsection \<open>App: the workflow controller\<close>

definition setError :: "string option \<Rightarrow> state \<Rightarrow> state" where
  "setError e s = s\<lparr>error := e\<rparr>"

text \<open>
  How a request ends. \<^verbatim>\<open>fetch\<close> rejects with an exception (its message is kept), or
  resolves with a response whose \<^verbatim>\<open>ok\<close> flag is set or not; \<^verbatim>\<open>response.json()\<close>
  rejects with an exception on a body that does not parse, or resolves with the parsed
  body, which may be \<^verbatim>\<open>null\<close>. Of an object in the body of an error response the
  \<^verbatim>\<open>error\<close> property is kept: missing, \<^verbatim>\<open>null\<close> or a string.
\<close>

datatype 'a json_body = Unparseable string | Body 'a

datatype outcome =
  Rejected string
| Response_not_ok "string json_field json_value option json_body"
| Response_ok "prediction_result json_value option json_body"

definition setPrediction :: "prediction_result json_value option \<Rightarrow> state \<Rightarrow> state" where
  "setPrediction result s = s\<lparr>prediction := result\<rparr>"

text \<open>
  \<^verbatim>\<open>handlePredict\<close> is asynchronous. Up to its first \<^verbatim>\<open>await\<close> it sets the loading
  flag, clears the error and posts the request.
\<close>

definition handlePredict_call :: "profile \<Rightarrow> state \<Rightarrow> state" where
  "handlePredict_call fd s =
    s\<lparr>loading := True, error := None, fetches := fetches s @ [fd], pending := Suc (pending s)\<rparr>"

text \<open>
  The \<^verbatim>\<open>try\<close> block once the request has ended. It returns the state it leaves and
  the message of the exception it throws, if any.
  \<^item> A rejected \<^verbatim>\<open>fetch\<close> and a body that does not parse throw their exception.
  \<^item> On a response that is not ok, \<^verbatim>\<open>errorData.error\<close> throws when the body is
    \<^verbatim>\<open>null\<close>; otherwise \<^verbatim>\<open>new Error(errorData.error || 'Prediction failed')\<close> is
    thrown.
  \<^item> On a response that is ok, \<^verbatim>\<open>setPrediction(result)\<close> runs first, and then
    \<^verbatim>\<open>result.predicted_grade\<close> is read, which throws when the body is \<^verbatim>\<open>null\<close>:
    by then the prediction has been set to \<^verbatim>\<open>null\<close>.
\<close>

fun try_block :: "outcome \<Rightarrow> state \<Rightarrow> state \<times> string option" where
  "try_block (Rejected m) s = (s, Some m)"
| "try_block (Response_not_ok (Unparseable m)) s = (s, Some m)"
| "try_block (Response_not_ok (Body None)) s = (s, Some (TypeError_null ''error''))"
| "try_block (Response_not_ok (Body (Some errorData))) s =
     (s, Some (or_field (error_property errorData) ''Prediction failed''))"
| "try_block (Response_ok (Unparseable m)) s = (s, Some m)"
| "try_block (Response_ok (Body None)) s =
     (setPrediction None s, Some (TypeError_null ''predicted_grade''))"
| "try_block (Response_ok (Body (Some result))) s = (setPrediction (Some result) s, None)"

text \<open>The rest of \<^verbatim>\<open>handlePredict\<close>: the \<^verbatim>\<open>catch\<close>, then \<^verbatim>\<open>finally\<close>.\<close>

definition handlePredict_settle :: "outcome \<Rightarrow> state \<Rightarrow> state" where
  "handlePredict_settle out s =
    (let caught = (case try_block out s of
                     (s', None) \<Rightarrow> s'
                   | (s', Some m) \<Rightarrow> setError (Some (or_string m ''Failed to connect to API'')) s')
     in caught\<lparr>loading := False, pending := pending caught - 1\<rparr>)"

definition handleReset :: "state \<Rightarrow> state" where
  "handleReset s = s\<lparr>prediction := None, error := None\<rparr>"

text \<open>
  The results column of \<^verbatim>\<open>App\<close>:
  \<^verbatim>\<open>loading ? skeleton : prediction ? results : landing\<close>, and the error banner of the
  form, \<^verbatim>\<open>error && ...\<close>.
\<close>

datatype app_view = LoadingSkeleton | Results "prediction_result json_value" | Landing

definition results_column :: "state \<Rightarrow> app_view" where
  "results_column s =
    (if loading s then LoadingSkeleton
     else case prediction s of
       Some p \<Rightarrow> if truthy_value p then Results p else Landing
     | None \<Rightarrow> Landing)"

definition error_banner :: "state \<Rightarrow> string option" where
  "error_banner s =
    (case error s of None \<Rightarrow> None | Some e \<Rightarrow> if e = [] then None else Some e)"

text \<open>
  What the user and the network can do. The submit button, the inputs and the sample
  buttons carry \<^verbatim>\<open>disabled={loading}\<close>, so their handlers do not run while loading;
  the reset button exists only where the results are shown; a request can only end
  when one is pending.
\<close>

datatype event =
  SubmitClick
| ResetClick
| InputChange input
| SampleClick nat
| Settled outcome

fun step :: "event \<Rightarrow> state \<Rightarrow> state" where
  "step SubmitClick s =
     (if loading s then s else handleSubmit handlePredict_call (Some setError) s)"
| "step ResetClick s =
     (case results_column s of Results p \<Rightarrow> handleReset s | _ \<Rightarrow> s)"
| "step (InputChange i) s =
     (if loading s then s else handleInputChange (Some setError) i s)"
| "step (SampleClick n) s =
     (if loading s then s
      else if n < length SAMPLE_STUDENTS then loadSampleStudent (Some setError) (SAMPLE_STUDENTS ! n) s
      else s)"
| "step (Settled out) s =
     (if pending s = 0 then s else handlePredict_settle out s)"

fun run :: "event list \<Rightarrow> state \<Rightarrow> state" where
  "run [] s = s"
| "run (e # es) s = run es (step e s)"

subsection \<open>View classifiers\<close>

definition descriptions :: "(string \<times> string) list" where
  "descriptions =
    [(''S'', ''Outstanding Performance''),
     (''A'', ''Excellent Work''),
     (''B'', ''Good Performance''),
     (''C'', ''Satisfactory''),
     (''D'', ''Needs Improvement''),
     (''F'', ''Requires Intervention'')]"

definition getGradeDescription :: "string \<Rightarrow> string jsval" where
  "getGradeDescription grade =
    js_or truthy_string (get_property descriptions grade) (Val ''Grade Predicted'')"

definition widths :: "(string \<times> nat) list" where
  "widths =
    [(''strong_positive'', 100),
     (''positive'', 70),
     (''neutral'', 40),
     (''negative'', 70),
     (''strong_negative'', 100)]"

definition getImpactWidth :: "string \<Rightarrow> nat jsval" where
  "getImpactWidth impact = js_or truthy_number (get_property widths impact) (Val 40)"

record risk_config =
  icon :: string
  color :: string
  bg :: string
  dotColor :: string
  label :: string
  description :: string

definition configs :: "(string \<times> risk_config) list" where
  "configs =
    [(''low'',
      \<lparr>icon = ''CheckCircle'', color = ''text-green-600'', bg = ''bg-green-50 border-green-200'',
       dotColor = ''bg-green-500'', label = ''Low Risk'',
       description = ''Student is performing well''\<rparr>),
     (''medium'',
      \<lparr>icon = ''AlertCircle'', color = ''text-yellow-600'', bg = ''bg-yellow-50 border-yellow-200'',
       dotColor = ''bg-yellow-500'', label = ''Medium Risk'',
       description = ''Monitor student progress''\<rparr>),
     (''high'',
      \<lparr>icon = ''AlertTriangle'', color = ''text-red-600'', bg = ''bg-red-50 border-red-200'',
       dotColor = ''bg-red-500'', label = ''High Risk'',
       description = ''Intervention recommended''\<rparr>)]"

definition getRiskConfig :: "string \<Rightarrow> risk_config jsval" where
  "getRiskConfig riskLevel =
    js_or truthy_object (get_property configs riskLevel) (get_property configs ''medium'')"

subsection \<open>View components: the guards on missing data\<close>

text \<open>
  \<^verbatim>\<open>RecommendationList\<close> shows the card "No recommendations available yet." or the
  numbered items with a footer (the count, and whether it takes a plural s).
\<close>

datatype recommendation_view =
  NoRecommendations
| RecommendationItems "(nat \<times> string) list" nat bool

fun RecommendationList :: "string list json_field \<Rightarrow> recommendation_view" where
  "RecommendationList Absent = NoRecommendations"
| "RecommendationList Null = NoRecommendations"
| "RecommendationList (Present recs) =
     (if length recs = 0 then NoRecommendations
      else RecommendationItems (map (\<lambda>(idx, r). (idx + 1, r)) (enumerate 0 recs))
             (length recs) (length recs \<noteq> 1))"

text \<open>
  \<^verbatim>\<open>FeatureChart\<close> shows the card "No feature impact data available yet." or one
  bar for each entry: the feature, its impact tag, the width of the bar, and whether
  the width is printed inside it (\<^verbatim>\<open>width >= 50\<close>, false for what is not a number).
\<close>

record bar =
  feature :: string
  impact :: string
  width :: "nat jsval"
  labelled :: bool

datatype chart_view = NoFeatureImpacts | Bars "bar list"

fun at_least_50 :: "nat jsval \<Rightarrow> bool" where
  "at_least_50 (Val n) = (n \<ge> 50)"
| "at_least_50 _ = False"

definition make_bar :: "string \<times> string \<Rightarrow> bar" where
  "make_bar entry =
    \<lparr>feature = fst entry, impact = snd entry, width = getImpactWidth (snd entry),
     labelled = at_least_50 (getImpactWidth (snd entry))\<rparr>"

fun FeatureChart :: "(string \<times> string) list json_field \<Rightarrow> chart_view" where
  "FeatureChart Absent = NoFeatureImpacts"
| "FeatureChart Null = NoFeatureImpacts"
| "FeatureChart (Present impacts) =
     (if length (map fst impacts) = 0 then NoFeatureImpacts else Bars (map make_bar impacts))"

subsection \<open>Example data\<close>

text \<open>
  A response of the service, and the state the controller is in once that response has
  answered a first submission of the default form.
\<close>

definition example_result :: "prediction_result json_value" where
  "example_result =
    JObject
      \<lparr>predicted_grade = ''A'', confidence = 91 / 100, risk_level = ''low'', risk_score = 12,
       recommendations = Present [''Keep up the excellent work''],
       feature_impacts = Present [(''study_hours_weekly'', ''strong_positive'')]\<rparr>"

definition success_state :: state where
  "success_state =
    run [SubmitClick, Settled (Response_ok (Body (Some example_result)))] initial"

text \<open>The invariant behind the single request: one is pending exactly while loading.\<close>

definition single_flight :: "state \<Rightarrow> bool" where
  "single_flight s = (pending s = (if loading s then 1 else 0))"

section \<open>Properties\<close>

subsection \<open>Shared lemmas\<close>

lemmas controller_defs =
  handleSubmit_def handlePredict_call_def handlePredict_settle_def call_onError_def
  setError_def setPrediction_def handleReset_def results_column_def handleInputChange_def
  loadSampleStudent_def or_string_def

text \<open>The \<^verbatim>\<open>try\<close> block touches nothing but the prediction.\<close>

lemma try_block_frame:
  "loading (fst (try_block out s)) = loading s \<and>
   pending (fst (try_block out s)) = pending s \<and>
   fetches (fst (try_block out s)) = fetches s \<and>
   formData (fst (try_block out s)) = formData s \<and>
   error (fst (try_block out s)) = error s"
  by (induction out s rule: try_block.induct) (simp_all add: setPrediction_def)

lemma TypeError_null_not_empty: "TypeError_null property \<noteq> []"
  by (simp add: TypeError_null_def)

lemma TypeError_null_error:
  "TypeError_null ''error'' = ''Cannot read properties of null (reading '' @ [CHR 0x27] @ ''error'' @ [CHR 0x27] @ '')''"
  by (simp add: TypeError_null_def)

lemma validateForm_initial: "validateForm initial_formData = None"
  by (simp add: validateForm_def initial_formData_def)

lemma example_result_truthy: "truthy_value example_result"
  by (simp add: example_result_def)

lemma success_state_eq:
  "success_state = initial\<lparr>prediction := Some example_result, fetches := [initial_formData]\<rparr>"
  by (simp add: success_state_def initial_def validateForm_initial controller_defs)

lemma run_append: "run (es @ fs) s = run fs (run es s)"
  by (induction es arbitrary: s) simp_all

lemma get_property_own: "map_of obj k = Some v \<Longrightarrow> get_property obj k = Val v"
  by (simp add: get_property_def)

lemma get_property_inherited:
  "map_of obj k = None \<Longrightarrow> k \<in> set Object_prototype \<Longrightarrow> get_property obj k = Builtin k"
  by (simp add: get_property_def)

lemma get_property_missing:
  "map_of obj k = None \<Longrightarrow> k \<notin> set Object_prototype \<Longrightarrow> get_property obj k = Undefined"
  by (simp add: get_property_def)

subsection \<open>The workflow controller\<close>

text \<open>
  Every action keeps the invariant: case analysis on the action, each handler
  unfolded.
\<close>

lemma step_single_flight:
  assumes "single_flight s"
  shows "single_flight (step e s)"
proof (cases e)
  case SubmitClick
  with assms show ?thesis
    by (auto simp: single_flight_def controller_defs split: option.splits)
next
  case ResetClick
  with assms show ?thesis
    by (auto simp: single_flight_def controller_defs split: option.splits if_splits)
next
  case (InputChange i)
  with assms show ?thesis
    by (auto simp: single_flight_def controller_defs)
next
  case (SampleClick n)
  with assms show ?thesis
    by (auto simp: single_flight_def controller_defs)
next
  case (Settled out)
  with assms try_block_frame [of out s] show ?thesis
    by (auto simp: single_flight_def handlePredict_settle_def setError_def Let_def
        split: prod.splits option.splits if_splits)
qed

lemma run_single_flight: "single_flight s \<Longrightarrow> single_flight (run es s)"
  by (induction es arbitrary: s) (simp_all add: step_single_flight)

lemma initial_single_flight: "single_flight initial"
  by (simp add: single_flight_def initial_def)

text \<open>
  \<^verbatim>\<open>handlePredict\<close> has no guard of its own: called twice in a row it posts two
  requests. The single request rests on the \<^verbatim>\<open>disabled={loading}\<close> of the button.
\<close>

lemma handlePredict_call_unguarded:
  "pending (handlePredict_call fd (handlePredict_call fd s)) = pending s + 2"
  by (simp add: handlePredict_call_def)

text \<open>
  C2. Whatever the user and the network do, starting from the initial state, at most one
  request is in flight; and a click on the submit button while the controller is loading
  (Submitting) changes nothing: the state stays as it is, still loading, and no further
  request is posted.
\<close>

theorem single_request_in_flight:
  "pending (run es initial) \<le> 1 \<and>
   (loading s \<longrightarrow>
      step SubmitClick s = s \<and> loading (step SubmitClick s) \<and>
      fetches (step SubmitClick s) = fetches s)"
proof -
  have "single_flight (run es initial)"
    by (rule run_single_flight) (rule initial_single_flight)
  then have "pending (run es initial) \<le> 1"
    by (simp add: single_flight_def split: if_splits)
  then show ?thesis by simp
qed

text \<open>
  C2 at a concrete input: after one click the controller is loading, and a second click
  leaves the state and the single posted request as they are.
\<close>

theorem single_request_in_flight_witness:
  "loading (run [SubmitClick] initial) \<and>
   pending (run [SubmitClick, SubmitClick] initial) \<le> 1 \<and>
   step SubmitClick (run [SubmitClick] initial) = run [SubmitClick] initial \<and>
   fetches (run [SubmitClick, SubmitClick] initial) = [initial_formData]"
  using single_request_in_flight [of "[SubmitClick, SubmitClick]" "run [SubmitClick] initial"]
  by (simp add: initial_def validateForm_initial controller_defs)

text \<open>
  C1, as the code has it. When a submission ends in an error (the \<^verbatim>\<open>try\<close> block
  throws), the controller stores the error message and clears the loading flag. The
  stored prediction is discarded, and the landing card shown, only when the error comes
  from a response that is ok with the body \<^verbatim>\<open>null\<close>: there \<^verbatim>\<open>setPrediction(null)\<close>
  has run before the read of \<^verbatim>\<open>result.predicted_grade\<close> throws. After every other error
  (a rejected request, a body that does not parse, a response that is not ok) the stored
  prediction is what it was before the submission, and the results column shows the
  earlier result again.
\<close>

theorem failed_submission_prediction:
  assumes thrown: "snd (try_block out (handlePredict_call fd s)) = Some m"
  shows
  "error (handlePredict_settle out (handlePredict_call fd s)) =
     Some (or_string m ''Failed to connect to API'') \<and>
   loading (handlePredict_settle out (handlePredict_call fd s)) = False \<and>
   prediction (handlePredict_settle out (handlePredict_call fd s)) =
     (if out = Response_ok (Body None) then None else prediction s) \<and>
   results_column (handlePredict_settle out (handlePredict_call fd s)) =
     (if out = Response_ok (Body None) then Landing
      else case prediction s of
        Some r \<Rightarrow> if truthy_value r then Results r else Landing
      | None \<Rightarrow> Landing)"
proof (cases "out = Response_ok (Body None)")
  case True
  with thrown show ?thesis
    by (simp add: handlePredict_settle_def handlePredict_call_def setError_def
        setPrediction_def results_column_def)
next
  case False
  have kept: "fst (try_block out (handlePredict_call fd s)) = handlePredict_call fd s"
    using False thrown
    by (induction out "handlePredict_call fd s" rule: try_block.induct) simp_all
  obtain s' where s': "try_block out (handlePredict_call fd s) = (s', Some m)"
    using thrown by (cases "try_block out (handlePredict_call fd s)") simp
  with kept have "s' = handlePredict_call fd s" by simp
  with s' False show ?thesis
    by (simp add: handlePredict_settle_def handlePredict_call_def setError_def
        results_column_def)
qed

text \<open>
  C1 as amended, at two concrete inputs after a success: a rejected request, which keeps
  the result, and a response that is ok with the body \<^verbatim>\<open>null\<close>, which discards it.
\<close>

theorem failed_submission_prediction_witness:
  "snd (try_block (Rejected ''Failed to fetch'')
      (handlePredict_call initial_formData success_state)) = Some ''Failed to fetch'' \<and>
   prediction (handlePredict_settle (Rejected ''Failed to fetch'')
      (handlePredict_call initial_formData success_state)) = Some example_result \<and>
   results_column (handlePredict_settle (Rejected ''Failed to fetch'')
      (handlePredict_call initial_formData success_state)) = Results example_result \<and>
   snd (try_block (Response_ok (Body None))
      (handlePredict_call initial_formData success_state)) =
     Some (TypeError_null ''predicted_grade'') \<and>
   prediction (handlePredict_settle (Response_ok (Body None))
      (handlePredict_call initial_formData success_state)) = None \<and>
   error (handlePredict_settle (Response_ok (Body None))
      (handlePredict_call initial_formData success_state)) =
     Some (TypeError_null ''predicted_grade'') \<and>
   results_column (handlePredict_settle (Response_ok (Body None))
      (handlePredict_call initial_formData success_state)) = Landing"
  using failed_submission_prediction
    [of "Rejected ''Failed to fetch''" initial_formData success_state "''Failed to fetch''"]
    failed_submission_prediction
    [of "Response_ok (Body None)" initial_formData success_state
        "TypeError_null ''predicted_grade''"]
  by (simp add: success_state_eq initial_def example_result_truthy or_string_def
      TypeError_null_not_empty)

text \<open>
  C1 as stated fails: from the state holding a successful result, a second submission
  whose request is rejected leaves the error stored and the earlier result both stored
  and displayed; the results column is not the landing card.
\<close>

theorem stale_result_after_failure:
  "prediction success_state = Some example_result \<and>
   error (run [SubmitClick, Settled (Rejected ''Failed to fetch'')] success_state) =
     Some ''Failed to fetch'' \<and>
   prediction (run [SubmitClick, Settled (Rejected ''Failed to fetch'')] success_state) =
     Some example_result \<and>
   results_column (run [SubmitClick, Settled (Rejected ''Failed to fetch'')] success_state) =
     Results example_result \<and>
   results_column (run [SubmitClick, Settled (Rejected ''Failed to fetch'')] success_state) \<noteq>
     Landing"
  by (simp add: success_state_eq initial_def validateForm_initial controller_defs
      example_result_truthy)

text \<open>
  C5, as the code has it. The message shown after a failed request is the message of
  the exception whenever that message is not empty: for a rejected \<^verbatim>\<open>fetch\<close> and for
  a body that does not parse, this is the text of the transport exception, and the
  generic "Failed to connect to API" stands in only for an empty message. For a response
  that is not ok and whose body is \<^verbatim>\<open>null\<close>, it is the text of the \<^verbatim>\<open>TypeError\<close> that
  \<^verbatim>\<open>errorData.error\<close> throws. For every other response that is not ok, it is the
  \<^verbatim>\<open>error\<close> field of the body when that is a string and not empty, and "Prediction
  failed" when the field is missing, \<^verbatim>\<open>null\<close> or empty, or the body is not an object. A
  response that is ok with the body \<^verbatim>\<open>null\<close> shows the text of the \<^verbatim>\<open>TypeError\<close> as
  well.
\<close>

theorem surfaced_error_message:
  "error (handlePredict_settle (Rejected m) s) =
     Some (if m = [] then ''Failed to connect to API'' else m) \<and>
   error (handlePredict_settle (Response_ok (Unparseable m)) s) =
     Some (if m = [] then ''Failed to connect to API'' else m) \<and>
   error (handlePredict_settle (Response_not_ok (Unparseable m)) s) =
     Some (if m = [] then ''Failed to connect to API'' else m) \<and>
   error (handlePredict_settle (Response_not_ok (Body None)) s) =
     Some (TypeError_null ''error'') \<and>
   error (handlePredict_settle (Response_not_ok (Body (Some (JObject (Present e))))) s) =
     Some (if e = [] then ''Prediction failed'' else e) \<and>
   error (handlePredict_settle (Response_not_ok (Body (Some (JObject Absent)))) s) =
     Some ''Prediction failed'' \<and>
   error (handlePredict_settle (Response_not_ok (Body (Some (JObject Null)))) s) =
     Some ''Prediction failed'' \<and>
   error (handlePredict_settle (Response_not_ok (Body (Some (JBool b)))) s) =
     Some ''Prediction failed'' \<and>
   error (handlePredict_settle (Response_not_ok (Body (Some (JNumber x)))) s) =
     Some ''Prediction failed'' \<and>
   error (handlePredict_settle (Response_not_ok (Body (Some (JString t)))) s) =
     Some ''Prediction failed'' \<and>
   error (handlePredict_settle (Response_not_ok (Body (Some (JArray xs)))) s) =
     Some ''Prediction failed'' \<and>
   error (handlePredict_settle (Response_ok (Body None)) s) =
     Some (TypeError_null ''predicted_grade'')"
  by (simp add: handlePredict_settle_def setError_def setPrediction_def or_string_def
      TypeError_null_not_empty)

text \<open>
  C5 as stated fails: when \<^verbatim>\<open>fetch\<close> rejects with the message "Failed to fetch", the
  banner of the form shows that text and not the generic message.
\<close>

theorem transport_error_text_surfaced:
  "error_banner (run [SubmitClick, Settled (Rejected ''Failed to fetch'')] initial) =
     Some ''Failed to fetch'' \<and>
   error_banner (run [SubmitClick, Settled (Rejected ''Failed to fetch'')] initial) \<noteq>
     Some ''Failed to connect to API''"
  by (simp add: initial_def validateForm_initial controller_defs error_banner_def)

text \<open>
  C9. In every state \<^verbatim>\<open>handleReset\<close> clears the stored prediction and the error. The
  results column then holds no result: it is the landing card (the skeleton, were a
  request loading), and wherever the reset button is on the page, a click on it leads
  to the landing card.
\<close>

theorem handleReset_clears:
  "prediction (handleReset s) = None \<and> error (handleReset s) = None \<and>
   results_column (handleReset s) = (if loading s then LoadingSkeleton else Landing) \<and>
   (case results_column s of
      Results p \<Rightarrow> results_column (step ResetClick s) = Landing
    | _ \<Rightarrow> True)"
  by (simp add: handleReset_def results_column_def split: option.splits)

text \<open>
  C9 at a concrete input: with a result on display the reset button is there, and the
  click on it clears the result and shows the landing card.
\<close>

theorem handleReset_clears_witness:
  "results_column success_state = Results example_result \<and>
   prediction (step ResetClick success_state) = None \<and>
   error (step ResetClick success_state) = None \<and>
   results_column (step ResetClick success_state) = Landing"
  using handleReset_clears [of success_state]
  by (simp add: success_state_eq initial_def handleReset_def results_column_def
      example_result_truthy)

subsection \<open>The validator\<close>

text \<open>
  On profiles whose four checked fields are numbers, \<^verbatim>\<open>validateForm\<close> is the
  validator of the specification: the four rules in their order, the message of the
  first one that fails.
\<close>

lemma validateForm_refines_spec:
  assumes "age p \<noteq> NaN" and "study_hours_weekly p \<noteq> NaN"
    and "previous_gpa p \<noteq> NaN" and "hours_on_platform p \<noteq> NaN"
  shows "validateForm p = spec_validate p"
proof -
  obtain a h g t where
    "age p = Num a" "study_hours_weekly p = Num h"
    "previous_gpa p = Num g" "hours_on_platform p = Num t"
    using assms by (metis number.exhaust)
  then show ?thesis
    by (auto simp: validateForm_def spec_validate_def)
qed

lemma validateForm_in_range:
  assumes "in_range 18 25 (age p)" and "in_range 5 40 (study_hours_weekly p)"
    and "in_range 5 10 (previous_gpa p)" and "in_range 10 200 (hours_on_platform p)"
  shows "validateForm p = None"
proof -
  have "spec_validate p = None"
    using assms by (simp add: spec_validate_def)
  moreover have "validateForm p = spec_validate p"
    using assms by (intro validateForm_refines_spec) auto
  ultimately show ?thesis by simp
qed

lemma validateForm_unchecked_fields:
  "validateForm (p\<lparr>gender := g, attendance_percent := a, assignments_completed := c,
      participation_score := q, midterm_score := m\<rparr>) = validateForm p"
  by (simp add: validateForm_def)

text \<open>
  C3. The specification has \<^verbatim>\<open>validate\<close> return the message of the first failing rule for
  every profile. The code does not for an age that is \<^verbatim>\<open>NaN\<close>, the value the form
  stores when the age input is emptied: both comparisons of the first rule are false,
  the profile passes although its age is not in the range 18 to 25, and the submit
  click posts it.
\<close>

theorem validateForm_accepts_NaN_age:
  "validateForm (initial_formData\<lparr>age := NaN\<rparr>) = None \<and>
   spec_validate (initial_formData\<lparr>age := NaN\<rparr>) = Some ''Age must be between 18-25'' \<and>
   fetches (run [InputChange (AgeInput NaN), SubmitClick] initial) =
     [initial_formData\<lparr>age := NaN\<rparr>]"
  by (simp add: validateForm_def spec_validate_def initial_formData_def initial_def
      controller_defs)

text \<open>
  C4. When the profile in the form fails validation, \<^verbatim>\<open>handleSubmit\<close> stores the
  validation message as the error and does nothing else: no request is posted or
  pending, and the loading flag, the stored prediction and the form are untouched. An age
  below 18 or above 25 is such a profile, with the message of the age rule.
\<close>

theorem invalid_submit_reports_only:
  "(validateForm (formData s) = Some msg \<longrightarrow>
      handleSubmit handlePredict_call (Some setError) s = s\<lparr>error := Some msg\<rparr>) \<and>
   (age (formData s) = Num a \<and> (a < 18 \<or> 25 < a) \<longrightarrow>
      validateForm (formData s) = Some ''Age must be between 18-25'' \<and>
      handleSubmit handlePredict_call (Some setError) s =
        s\<lparr>error := Some ''Age must be between 18-25''\<rparr>)"
  by (auto simp: handleSubmit_def call_onError_def setError_def validateForm_def
      split: if_splits)

text \<open>
  C4 at a concrete input: with a result on display and the age set to 17, the submit
  click posts nothing and keeps the result.
\<close>

theorem invalid_submit_reports_only_witness:
  "validateForm (formData (success_state\<lparr>formData := initial_formData\<lparr>age := Num 17\<rparr>\<rparr>)) =
     Some ''Age must be between 18-25'' \<and>
   fetches (step SubmitClick (success_state\<lparr>formData := initial_formData\<lparr>age := Num 17\<rparr>\<rparr>)) =
     fetches success_state \<and>
   prediction (step SubmitClick (success_state\<lparr>formData := initial_formData\<lparr>age := Num 17\<rparr>\<rparr>)) =
     Some example_result \<and>
   error (step SubmitClick (success_state\<lparr>formData := initial_formData\<lparr>age := Num 17\<rparr>\<rparr>)) =
     Some ''Age must be between 18-25''"
  using invalid_submit_reports_only
    [of "success_state\<lparr>formData := initial_formData\<lparr>age := Num 17\<rparr>\<rparr>"
        "''Age must be between 18-25''" 17]
  by (simp add: success_state_eq initial_def validateForm_def initial_formData_def)

subsection \<open>The view classifiers\<close>

text \<open>
  Each table answers its own keys; a key that is neither in the table nor a property
  name of \<^verbatim>\<open>Object.prototype\<close> gets the default; a property name of
  \<^verbatim>\<open>Object.prototype\<close> gets the inherited member, which is truthy, and never the
  default.
\<close>

lemma getGradeDescription_table:
  "getGradeDescription ''S'' = Val ''Outstanding Performance''"
  "getGradeDescription ''A'' = Val ''Excellent Work''"
  "getGradeDescription ''B'' = Val ''Good Performance''"
  "getGradeDescription ''C'' = Val ''Satisfactory''"
  "getGradeDescription ''D'' = Val ''Needs Improvement''"
  "getGradeDescription ''F'' = Val ''Requires Intervention''"
  by (simp_all add: getGradeDescription_def get_property_def descriptions_def js_or_def
      truthy_string_def)

lemma getGradeDescription_default:
  assumes "grade \<notin> set (map fst descriptions)" and "grade \<notin> set Object_prototype"
  shows "getGradeDescription grade = Val ''Grade Predicted''"
proof -
  have "map_of descriptions grade = None"
    using assms(1) by (simp add: map_of_eq_None_iff)
  then have "get_property descriptions grade = Undefined"
    using assms(2) by (rule get_property_missing)
  then show ?thesis
    by (simp add: getGradeDescription_def js_or_def)
qed

lemma getGradeDescription_inherited:
  assumes "grade \<in> set Object_prototype"
  shows "getGradeDescription grade = Builtin grade"
proof -
  have "grade \<notin> set (map fst descriptions)"
    using assms by (auto simp: Object_prototype_def descriptions_def)
  then have "map_of descriptions grade = None"
    by (simp add: map_of_eq_None_iff)
  then have "get_property descriptions grade = Builtin grade"
    using assms by (rule get_property_inherited)
  then show ?thesis
    by (simp add: getGradeDescription_def js_or_def)
qed

text \<open>
  C6. The specification has every string other than the six grades classified as "Grade
  Predicted". For the grade "constructor" the code returns the member \<^verbatim>\<open>constructor\<close>
  that the table inherits, which is not a description at all.
\<close>

theorem getGradeDescription_constructor:
  "getGradeDescription ''constructor'' = Builtin ''constructor'' \<and>
   getGradeDescription ''constructor'' \<noteq> Val ''Grade Predicted''"
  by (simp add: getGradeDescription_def get_property_def descriptions_def js_or_def
      Object_prototype_def)

lemma getImpactWidth_table:
  "getImpactWidth ''strong_positive'' = Val 100"
  "getImpactWidth ''positive'' = Val 70"
  "getImpactWidth ''neutral'' = Val 40"
  "getImpactWidth ''negative'' = Val 70"
  "getImpactWidth ''strong_negative'' = Val 100"
  by (simp_all add: getImpactWidth_def get_property_def widths_def js_or_def
      truthy_number_def)

lemma getImpactWidth_default:
  assumes "tag \<notin> set (map fst widths)" and "tag \<notin> set Object_prototype"
  shows "getImpactWidth tag = Val 40"
proof -
  have "map_of widths tag = None"
    using assms(1) by (simp add: map_of_eq_None_iff)
  then have "get_property widths tag = Undefined"
    using assms(2) by (rule get_property_missing)
  then show ?thesis
    by (simp add: getImpactWidth_def js_or_def)
qed

lemma getImpactWidth_inherited:
  assumes "tag \<in> set Object_prototype"
  shows "getImpactWidth tag = Builtin tag"
proof -
  have "tag \<notin> set (map fst widths)"
    using assms by (auto simp: Object_prototype_def widths_def)
  then have "map_of widths tag = None"
    by (simp add: map_of_eq_None_iff)
  then have "get_property widths tag = Builtin tag"
    using assms by (rule get_property_inherited)
  then show ?thesis
    by (simp add: getImpactWidth_def js_or_def)
qed

text \<open>
  C7. The specification has every unrecognised tag get the width 40. For the tag "toString" the
  code returns the inherited member \<^verbatim>\<open>toString\<close>, which is not a number, and the bar
  drawn for it carries that value as its width.
\<close>

theorem getImpactWidth_toString:
  "getImpactWidth ''toString'' = Builtin ''toString'' \<and>
   getImpactWidth ''toString'' \<noteq> Val 40 \<and>
   FeatureChart (Present [(''attendance'', ''toString'')]) =
     Bars [\<lparr>feature = ''attendance'', impact = ''toString'', width = Builtin ''toString'',
            labelled = False\<rparr>]"
  by (simp add: getImpactWidth_def get_property_def widths_def js_or_def
      Object_prototype_def make_bar_def)

lemma getRiskConfig_table:
  "\<exists>c. getRiskConfig ''low'' = Val c \<and> label c = ''Low Risk'' \<and>
       description c = ''Student is performing well''"
  "\<exists>c. getRiskConfig ''medium'' = Val c \<and> label c = ''Medium Risk'' \<and>
       description c = ''Monitor student progress''"
  "\<exists>c. getRiskConfig ''high'' = Val c \<and> label c = ''High Risk'' \<and>
       description c = ''Intervention recommended''"
  by (simp_all add: getRiskConfig_def get_property_def configs_def js_or_def
      truthy_object_def)

lemma getRiskConfig_default:
  assumes "riskLevel \<notin> set (map fst configs)" and "riskLevel \<notin> set Object_prototype"
  shows "getRiskConfig riskLevel = getRiskConfig ''medium''"
proof -
  have "map_of configs riskLevel = None"
    using assms(1) by (simp add: map_of_eq_None_iff)
  then have "get_property configs riskLevel = Undefined"
    using assms(2) by (rule get_property_missing)
  then show ?thesis
    by (simp add: getRiskConfig_def js_or_def get_property_def configs_def truthy_object_def)
qed

lemma getRiskConfig_inherited:
  assumes "riskLevel \<in> set Object_prototype"
  shows "getRiskConfig riskLevel = Builtin riskLevel"
proof -
  have "riskLevel \<notin> set (map fst configs)"
    using assms by (auto simp: Object_prototype_def configs_def)
  then have "map_of configs riskLevel = None"
    by (simp add: map_of_eq_None_iff)
  then have "get_property configs riskLevel = Builtin riskLevel"
    using assms by (rule get_property_inherited)
  then show ?thesis
    by (simp add: getRiskConfig_def js_or_def)
qed

text \<open>
  C8. The specification has every unrecognised risk level get the configuration of medium. For
  the level "constructor" the code returns the inherited member \<^verbatim>\<open>constructor\<close>, which
  is not the configuration of medium.
\<close>

theorem getRiskConfig_constructor:
  "getRiskConfig ''constructor'' = Builtin ''constructor'' \<and>
   getRiskConfig ''constructor'' \<noteq> getRiskConfig ''medium''"
  by (simp add: getRiskConfig_def get_property_def configs_def js_or_def
      Object_prototype_def truthy_object_def)

subsection \<open>The view components\<close>

text \<open>
  C10. Given recommendations that are absent, \<^verbatim>\<open>null\<close> or the empty array,
  \<^verbatim>\<open>RecommendationList\<close> renders its "No recommendations available yet." card; given
  feature impacts that are absent, \<^verbatim>\<open>null\<close> or the empty object, \<^verbatim>\<open>FeatureChart\<close>
  renders its "No feature impact data available yet." card. The guard returns before any
  entry is read, so nothing is thrown.
\<close>

theorem empty_data_fallback:
  "RecommendationList Absent = NoRecommendations \<and>
   RecommendationList Null = NoRecommendations \<and>
   RecommendationList (Present []) = NoRecommendations \<and>
   FeatureChart Absent = NoFeatureImpacts \<and>
   FeatureChart Null = NoFeatureImpacts \<and>
   FeatureChart (Present []) = NoFeatureImpacts"
  by simp

end
